theory Spec2Isabelle
  imports Complex_Main
begin

section \<open>Python values and failures\<close>

text \<open>
  The engine is written in Python over double-precision floats. Floats are idealised as
  \<^typ>\<open>real\<close>: rounding, overflow and underflow are outside the model, except in the one
  section that evaluates \<^verbatim>\<open>d2\<close> in doubles. What is kept is every way the arithmetic of the
  source can raise on real inputs: float division by zero, \<^verbatim>\<open>math.log\<close> of a non-positive
  number, \<^verbatim>\<open>math.sqrt\<close> of a negative number, and the array-shape errors of numpy.
\<close>

datatype py_error = ValueError | ZeroDivisionError | IndexError

definition and_then :: "py_error + 'a \<Rightarrow> ('a \<Rightarrow> py_error + 'b) \<Rightarrow> py_error + 'b" where
  "and_then m f = (case m of Inl e \<Rightarrow> Inl e | Inr v \<Rightarrow> f v)"

text \<open>
  The operator \<^verbatim>\<open>/\<close> on Python \<^verbatim>\<open>float\<close> and \<^verbatim>\<open>int\<close> operands, which is what the docstrings of
  the source declare and its \<^verbatim>\<open>__main__\<close> blocks pass. With a \<^verbatim>\<open>numpy.float64\<close> operand a zero
  divisor gives \<^verbatim>\<open>inf\<close> or \<^verbatim>\<open>nan\<close> and a warning instead of an exception, which a real number
  cannot express: a call that divides by zero is followed here for Python operands only,
  and no claim below is settled on such a call.
\<close>

definition py_truediv :: "real \<Rightarrow> real \<Rightarrow> py_error + real" where
  "py_truediv a b = (if b = 0 then Inl ZeroDivisionError else Inr (a / b))"

definition math_log :: "real \<Rightarrow> py_error + real" where
  "math_log v = (if v \<le> 0 then Inl ValueError else Inr (ln v))"

definition math_sqrt :: "real \<Rightarrow> py_error + real" where
  "math_sqrt v = (if v < 0 then Inl ValueError else Inr (sqrt v))"

text \<open>Python's \<^verbatim>\<open>int(x)\<close> on a float truncates towards zero.\<close>

definition py_int :: "real \<Rightarrow> int" where
  "py_int v = (if 0 \<le> v then \<lfloor>v\<rfloor> else \<lceil>v\<rceil>)"

section \<open>The standard normal distribution (scipy.stats.norm)\<close>

text \<open>
  Modelled from the spec: \<^verbatim>\<open>scipy.stats.norm\<close> is an external library, so \<^verbatim>\<open>norm.cdf\<close> and
  \<^verbatim>\<open>norm.pdf\<close> are given by what the spec calls them, the standard normal cumulative
  distribution function and the standard normal density. The density is
  \<open>exp (- x\<^sup>2 / 2) / sqrt (2 * pi)\<close>. The distribution function is the normalised
  antiderivative of the bell curve \<open>exp (- t\<^sup>2 / 2)\<close>: \<open>gauss_integral x\<close> is the integral
  of the bell curve from \<open>0\<close> to \<open>x\<close>, written as its power series, \<open>gauss_mass\<close> is the
  integral over the whole line (twice the supremum of \<open>gauss_integral\<close>), and
  \<open>norm_cdf x = 1 / 2 + gauss_integral x / gauss_mass\<close>.
\<close>

definition gauss_coeff :: "nat \<Rightarrow> real" where
  "gauss_coeff n =
     (if even n then 0
      else (- 1) ^ ((n - 1) div 2) / (2 ^ ((n - 1) div 2) * fact ((n - 1) div 2) * real n))"

definition gauss_integral :: "real \<Rightarrow> real" where
  "gauss_integral v = (\<Sum>n. gauss_coeff n * v ^ n)"

definition gauss_mass :: real where
  "gauss_mass = 2 * (SUP v. gauss_integral v)"

definition norm_cdf :: "real \<Rightarrow> real" where
  "norm_cdf v = 1 / 2 + gauss_integral v / gauss_mass"

definition norm_pdf :: "real \<Rightarrow> real" where
  "norm_pdf v = exp (- v\<^sup>2 / 2) / sqrt (2 * pi)"

section \<open>Analytical pricer (option\_pricer.py)\<close>

text \<open>
  The expression bound to \<^verbatim>\<open>d1\<close>, which the pricer and every Greek but rho repeat verbatim:
  \<^verbatim>\<open>(math.log(S / K) + (r + 0.5 * sigma**2) * T) / (sigma * math.sqrt(T))\<close>.
  Python evaluates the numerator first (the division \<^verbatim>\<open>S / K\<close>, then the logarithm), then
  the denominator (the square root), then the division.
\<close>

definition d1_expr :: "real \<Rightarrow> real \<Rightarrow> real \<Rightarrow> real \<Rightarrow> real \<Rightarrow> py_error + real" where
  "d1_expr S K T r sigma =
     and_then (py_truediv S K) (\<lambda>q.
     and_then (math_log q) (\<lambda>l.
     and_then (math_sqrt T) (\<lambda>s.
       py_truediv (l + (r + 0.5 * sigma\<^sup>2) * T) (sigma * s))))"

definition black_scholes_call :: "real \<Rightarrow> real \<Rightarrow> real \<Rightarrow> real \<Rightarrow> real \<Rightarrow> py_error + real" where
  "black_scholes_call S K T r sigma =
     and_then (d1_expr S K T r sigma) (\<lambda>d1.
     and_then (math_sqrt T) (\<lambda>s.
       let d2 = d1 - sigma * s
       in Inr (S * norm_cdf d1 - K * exp (- r * T) * norm_cdf d2)))"

definition black_scholes_put :: "real \<Rightarrow> real \<Rightarrow> real \<Rightarrow> real \<Rightarrow> real \<Rightarrow> py_error + real" where
  "black_scholes_put S K T r sigma =
     and_then (d1_expr S K T r sigma) (\<lambda>d1.
     and_then (math_sqrt T) (\<lambda>s.
       let d2 = d1 - sigma * s
       in Inr (K * exp (- r * T) * norm_cdf (- d2) - S * norm_cdf (- d1))))"

text \<open>
  The formulas as the spec writes them (section 4.1), over the reals and with no failure
  case, to compare the code with: \<open>d1\<close>, \<open>d2 = d1 - \<sigma>\<surd>T\<close>, the call value and the put value.
\<close>

definition spec_d1 :: "real \<Rightarrow> real \<Rightarrow> real \<Rightarrow> real \<Rightarrow> real \<Rightarrow> real" where
  "spec_d1 S K T r sigma = (ln (S / K) + (r + 0.5 * sigma\<^sup>2) * T) / (sigma * sqrt T)"

definition spec_d2 :: "real \<Rightarrow> real \<Rightarrow> real \<Rightarrow> real \<Rightarrow> real \<Rightarrow> real" where
  "spec_d2 S K T r sigma = spec_d1 S K T r sigma - sigma * sqrt T"

definition spec_call :: "real \<Rightarrow> real \<Rightarrow> real \<Rightarrow> real \<Rightarrow> real \<Rightarrow> real" where
  "spec_call S K T r sigma =
     S * norm_cdf (spec_d1 S K T r sigma) - K * exp (- r * T) * norm_cdf (spec_d2 S K T r sigma)"

definition spec_put :: "real \<Rightarrow> real \<Rightarrow> real \<Rightarrow> real \<Rightarrow> real \<Rightarrow> real" where
  "spec_put S K T r sigma =
     K * exp (- r * T) * norm_cdf (- spec_d2 S K T r sigma) - S * norm_cdf (- spec_d1 S K T r sigma)"

section \<open>Greeks engine (greeks.py)\<close>

definition delta_call :: "real \<Rightarrow> real \<Rightarrow> real \<Rightarrow> real \<Rightarrow> real \<Rightarrow> py_error + real" where
  "delta_call S K T r sigma =
     and_then (d1_expr S K T r sigma) (\<lambda>d1. Inr (norm_cdf d1))"

definition delta_put :: "real \<Rightarrow> real \<Rightarrow> real \<Rightarrow> real \<Rightarrow> real \<Rightarrow> py_error + real" where
  "delta_put S K T r sigma =
     and_then (d1_expr S K T r sigma) (\<lambda>d1. Inr (norm_cdf d1 - 1))"

definition gamma :: "real \<Rightarrow> real \<Rightarrow> real \<Rightarrow> real \<Rightarrow> real \<Rightarrow> py_error + real" where
  "gamma S K T r sigma =
     and_then (d1_expr S K T r sigma) (\<lambda>d1.
     and_then (math_sqrt T) (\<lambda>s.
       py_truediv (norm_pdf d1) (S * sigma * s)))"

definition vega :: "real \<Rightarrow> real \<Rightarrow> real \<Rightarrow> real \<Rightarrow> real \<Rightarrow> py_error + real" where
  "vega S K T r sigma =
     and_then (d1_expr S K T r sigma) (\<lambda>d1.
     and_then (math_sqrt T) (\<lambda>s.
       Inr (S * norm_pdf d1 * s / 100)))"

text \<open>
  Theta divides by \<^verbatim>\<open>2 * math.sqrt(T)\<close> after \<^verbatim>\<open>d1\<close> and \<^verbatim>\<open>d2\<close> are bound:
  \<^verbatim>\<open>(-S * norm.pdf(d1) * sigma / (2 * math.sqrt(T)) - r * K * math.exp(-r * T) * norm.cdf(d2)) / 365\<close>.
\<close>

definition theta_call :: "real \<Rightarrow> real \<Rightarrow> real \<Rightarrow> real \<Rightarrow> real \<Rightarrow> py_error + real" where
  "theta_call S K T r sigma =
     and_then (d1_expr S K T r sigma) (\<lambda>d1.
     and_then (math_sqrt T) (\<lambda>s.
       let d2 = d1 - sigma * s
       in and_then (math_sqrt T) (\<lambda>s'.
          and_then (py_truediv (- S * norm_pdf d1 * sigma) (2 * s')) (\<lambda>decay.
            Inr ((decay - r * K * exp (- r * T) * norm_cdf d2) / 365)))))"

definition theta_put :: "real \<Rightarrow> real \<Rightarrow> real \<Rightarrow> real \<Rightarrow> real \<Rightarrow> py_error + real" where
  "theta_put S K T r sigma =
     and_then (d1_expr S K T r sigma) (\<lambda>d1.
     and_then (math_sqrt T) (\<lambda>s.
       let d2 = d1 - sigma * s
       in and_then (math_sqrt T) (\<lambda>s'.
          and_then (py_truediv (- S * norm_pdf d1 * sigma) (2 * s')) (\<lambda>decay.
            Inr ((decay + r * K * exp (- r * T) * norm_cdf (- d2)) / 365)))))"

text \<open>
  The rho functions do not go through \<^verbatim>\<open>d1\<close>; they bind \<^verbatim>\<open>d2\<close> directly to
  \<^verbatim>\<open>(math.log(S / K) + (r - 0.5 * sigma**2) * T) / (sigma * math.sqrt(T))\<close>.
\<close>

definition rho_d2_expr :: "real \<Rightarrow> real \<Rightarrow> real \<Rightarrow> real \<Rightarrow> real \<Rightarrow> py_error + real" where
  "rho_d2_expr S K T r sigma =
     and_then (py_truediv S K) (\<lambda>q.
     and_then (math_log q) (\<lambda>l.
     and_then (math_sqrt T) (\<lambda>s.
       py_truediv (l + (r - 0.5 * sigma\<^sup>2) * T) (sigma * s))))"

definition rho_call :: "real \<Rightarrow> real \<Rightarrow> real \<Rightarrow> real \<Rightarrow> real \<Rightarrow> py_error + real" where
  "rho_call S K T r sigma =
     and_then (rho_d2_expr S K T r sigma) (\<lambda>d2.
       Inr (K * T * exp (- r * T) * norm_cdf d2 / 100))"

definition rho_put :: "real \<Rightarrow> real \<Rightarrow> real \<Rightarrow> real \<Rightarrow> real \<Rightarrow> py_error + real" where
  "rho_put S K T r sigma =
     and_then (rho_d2_expr S K T r sigma) (\<lambda>d2.
       Inr (- K * T * exp (- r * T) * norm_cdf (- d2) / 100))"

section \<open>The term d2 in double precision\<close>






section \<open>Simulation pricer (monte\_carlo.py)\<close>

text \<open>
  numpy's process-wide generator is an explicit state of type \<open>'g\<close>. The two library calls
  the source makes are parameters: \<^verbatim>\<open>np.random.seed(seed)\<close> replaces the state by one that
  depends on the seed only (or raises, for a seed numpy rejects), and
  \<^verbatim>\<open>np.random.standard_normal(N)\<close> returns \<open>N\<close> draws and the advanced state.
\<close>

record 'g np_random =
  random_seed :: "int \<Rightarrow> py_error + 'g"
  random_standard_normal :: "nat \<Rightarrow> 'g \<Rightarrow> real list \<times> 'g"

text \<open>A numpy float: a real number, or the not-a-number that \<^verbatim>\<open>np.mean\<close> of an empty array gives.\<close>

datatype np_float = Float real | NaN

definition np_scale :: "real \<Rightarrow> np_float \<Rightarrow> np_float" where
  "np_scale c v = (case v of Float w \<Rightarrow> Float (c * w) | NaN \<Rightarrow> NaN)"

definition np_mean :: "real list \<Rightarrow> np_float" where
  "np_mean vs = (if vs = [] then NaN else Float (sum_list vs / real (length vs)))"

text \<open>
  The \<open>N \<times> (steps + 1)\<close> array \<^verbatim>\<open>paths\<close> is kept as the list of its columns, each a list of
  \<open>N\<close> prices, since the source reads and writes it by column only.
  \<^verbatim>\<open>np.zeros\<close> raises for a negative dimension; writing column \<open>0\<close> of an array with no
  column raises.
\<close>

definition np_zeros :: "int \<Rightarrow> int \<Rightarrow> py_error + real list list" where
  "np_zeros n m =
     (if n < 0 \<or> m < 0 then Inl ValueError
      else Inr (replicate (nat m) (replicate (nat n) 0)))"

definition set_column :: "real list list \<Rightarrow> nat \<Rightarrow> real list \<Rightarrow> py_error + real list list" where
  "set_column paths t col =
     (if t < length paths then Inr (paths[t := col]) else Inl IndexError)"

definition mc_dt :: "real \<Rightarrow> real" where
  "mc_dt T = T / 252"

definition mc_steps :: "real \<Rightarrow> int" where
  "mc_steps T = py_int (T * 252)"

text \<open>
  One pass of the loop body, for column \<open>t\<close>:
  \<^verbatim>\<open>Z = np.random.standard_normal(N)\<close>,
  \<^verbatim>\<open>paths[:, t] = paths[:, t-1] * np.exp((r - 0.5 * sigma**2) * dt + sigma * np.sqrt(dt) * Z)\<close>.
  The loop runs \<open>t\<close> over \<^verbatim>\<open>range(1, steps + 1)\<close>, so \<open>t\<close> and \<open>t - 1\<close> are columns of the array
  and \<open>dt\<close> is positive whenever the body runs.
\<close>

definition gbm_step ::
  "'g np_random \<Rightarrow> real \<Rightarrow> real \<Rightarrow> real \<Rightarrow> nat \<Rightarrow> nat \<Rightarrow> real list list \<times> 'g \<Rightarrow> real list list \<times> 'g" where
  "gbm_step lib r sigma dt N t st =
     (case st of (paths, g) \<Rightarrow>
        (case random_standard_normal lib N g of (Z, g') \<Rightarrow>
           (paths[t := map2 (\<lambda>p z. p * exp ((r - 0.5 * sigma\<^sup>2) * dt + sigma * sqrt dt * z))
                         (paths ! (t - 1)) Z], g')))"

definition gbm_loop ::
  "'g np_random \<Rightarrow> real \<Rightarrow> real \<Rightarrow> real \<Rightarrow> nat \<Rightarrow> nat \<Rightarrow> real list list \<times> 'g \<Rightarrow> real list list \<times> 'g" where
  "gbm_loop lib r sigma dt N steps st = fold (gbm_step lib r sigma dt N) [1 ..< Suc steps] st"

text \<open>
  Lines 26 to 46 of \<^verbatim>\<open>monte_carlo_call\<close>, which \<^verbatim>\<open>monte_carlo_put\<close> repeats: seed, step size,
  step count, allocation, first column, loop. \<open>g0\<close> is the generator state the call finds.
\<close>

definition simulate_paths ::
  "'g np_random \<Rightarrow> 'g \<Rightarrow> real \<Rightarrow> real \<Rightarrow> real \<Rightarrow> real \<Rightarrow> int \<Rightarrow> int \<Rightarrow> py_error + (real list list \<times> 'g)" where
  "simulate_paths lib g0 S T r sigma N seed =
     and_then (random_seed lib seed) (\<lambda>g.
       let dt = mc_dt T;
           steps = mc_steps T
       in and_then (np_zeros N (steps + 1)) (\<lambda>paths.
          and_then (set_column paths 0 (replicate (nat N) S)) (\<lambda>paths.
            Inr (gbm_loop lib r sigma dt (nat N) (nat steps) (paths, g)))))"

definition monte_carlo_call ::
  "'g np_random \<Rightarrow> 'g \<Rightarrow> real \<Rightarrow> real \<Rightarrow> real \<Rightarrow> real \<Rightarrow> real \<Rightarrow> int \<Rightarrow> int \<Rightarrow> py_error + (np_float \<times> 'g)" where
  "monte_carlo_call lib g0 S K T r sigma N seed =
     and_then (simulate_paths lib g0 S T r sigma N seed) (\<lambda>(paths, g).
       let payoffs = map (\<lambda>p. max (p - K) 0) (last paths)
       in Inr (np_scale (exp (- r * T)) (np_mean payoffs), g))"

definition monte_carlo_put ::
  "'g np_random \<Rightarrow> 'g \<Rightarrow> real \<Rightarrow> real \<Rightarrow> real \<Rightarrow> real \<Rightarrow> real \<Rightarrow> int \<Rightarrow> int \<Rightarrow> py_error + (np_float \<times> 'g)" where
  "monte_carlo_put lib g0 S K T r sigma N seed =
     and_then (simulate_paths lib g0 S T r sigma N seed) (\<lambda>(paths, g).
       let payoffs = map (\<lambda>p. max (K - p) 0) (last paths)
       in Inr (np_scale (exp (- r * T)) (np_mean payoffs), g))"

text \<open>
  A small generator for running the pricer on concrete inputs: the state counts the
  draws made since seeding, seeds outside \<open>0 \<dots> 2\<^sup>3\<^sup>2 - 1\<close> are rejected as numpy does, and
  every draw is \<open>0\<close>.
\<close>

definition counting_random :: "nat np_random" where
  "counting_random =
     \<lparr> random_seed = (\<lambda>s. if 0 \<le> s \<and> s < 2 ^ 32 then Inr 0 else Inl ValueError),
       random_standard_normal = (\<lambda>n g. (replicate n 0, g + n)) \<rparr>"

section \<open>Implied volatility solver (implied\_volatility.py)\<close>

text \<open>
  A number as the caller receives it: a Python \<^verbatim>\<open>float\<close> or a \<^verbatim>\<open>numpy.float64\<close>. The two are
  different types to the caller, also at equal values.
\<close>

datatype py_number = PyFloat real | NpFloat64 real

text \<open>
  \<^verbatim>\<open>scipy.optimize.minimize_scalar\<close> is an external library and a parameter here. It is
  handed the objective and the bounds and either raises (an exception of the objective
  passes through it) or returns a result object, of which the source reads \<^verbatim>\<open>x\<close> only.
\<close>

record optimize_result =
  res_x :: py_number
  res_success :: bool

type_synonym minimizer = "(real \<Rightarrow> py_error + real) \<Rightarrow> real \<times> real \<Rightarrow> py_error + optimize_result"

definition call_objective :: "real \<Rightarrow> real \<Rightarrow> real \<Rightarrow> real \<Rightarrow> real \<Rightarrow> real \<Rightarrow> py_error + real" where
  "call_objective S K T r market_price sigma =
     and_then (black_scholes_call S K T r sigma) (\<lambda>p. Inr \<bar>p - market_price\<bar>)"

definition put_objective :: "real \<Rightarrow> real \<Rightarrow> real \<Rightarrow> real \<Rightarrow> real \<Rightarrow> real \<Rightarrow> py_error + real" where
  "put_objective S K T r market_price sigma =
     and_then (black_scholes_put S K T r sigma) (\<lambda>p. Inr \<bar>p - market_price\<bar>)"

text \<open>
  \<^verbatim>\<open>try: result = minimize_scalar(objective, bounds=(0.01, 3.0), method='bounded'); return result.x\<close>
  \<^verbatim>\<open>except: return initial_guess\<close>
  The \<^verbatim>\<open>except\<close> branch hands back the very object the caller passed, by default the Python
  float \<^verbatim>\<open>0.3\<close>; the \<^verbatim>\<open>try\<close> branch hands back the library's \<^verbatim>\<open>x\<close>.
\<close>

definition solve_call ::
  "minimizer \<Rightarrow> real \<Rightarrow> real \<Rightarrow> real \<Rightarrow> real \<Rightarrow> real \<Rightarrow> py_number \<Rightarrow> py_error + py_number" where
  "solve_call minimize_scalar S K T r market_price initial_guess =
     (case minimize_scalar (call_objective S K T r market_price) (0.01, 3.0) of
        Inr result \<Rightarrow> Inr (res_x result)
      | Inl e \<Rightarrow> Inr initial_guess)"

definition solve_put ::
  "minimizer \<Rightarrow> real \<Rightarrow> real \<Rightarrow> real \<Rightarrow> real \<Rightarrow> real \<Rightarrow> py_number \<Rightarrow> py_error + py_number" where
  "solve_put minimize_scalar S K T r market_price initial_guess =
     (case minimize_scalar (put_objective S K T r market_price) (0.01, 3.0) of
        Inr result \<Rightarrow> Inr (res_x result)
      | Inl e \<Rightarrow> Inr initial_guess)"

text \<open>
  Two stand-ins for the library on concrete inputs. Both evaluate the objective at the
  midpoint of the bounds, so that an exception of the objective passes through as it does
  through scipy, and both report a \<^verbatim>\<open>numpy.float64\<close> as scipy does: the first reports the
  midpoint, the second a given value \<open>v\<close>, which stands for whatever value the library
  converges to on that invocation.
\<close>

definition midpoint_minimizer :: minimizer where
  "midpoint_minimizer f b =
     (case b of (lo, hi) \<Rightarrow>
        and_then (f ((lo + hi) / 2))
          (\<lambda>v. Inr \<lparr> res_x = NpFloat64 ((lo + hi) / 2), res_success = True \<rparr>))"

definition probing_minimizer :: "real \<Rightarrow> minimizer" where
  "probing_minimizer v f b =
     (case b of (lo, hi) \<Rightarrow>
        and_then (f ((lo + hi) / 2))
          (\<lambda>w. Inr \<lparr> res_x = NpFloat64 v, res_success = True \<rparr>))"

section \<open>The normal distribution function\<close>

text \<open>
  The power series of \<open>gauss_integral\<close> converges everywhere and its derivative is the bell
  curve; the function is odd, increasing and bounded, so \<open>gauss_mass\<close> is positive and
  \<open>norm_cdf\<close> is a distribution function: it lies between \<open>0\<close> and \<open>1\<close>, it satisfies
  \<open>norm_cdf (- v) = 1 - norm_cdf v\<close>, and its derivative is the bell curve over its mass.
\<close>

lemma diffs_gauss_coeff:
  "diffs gauss_coeff n = (if even n then (- 1) ^ (n div 2) / (2 ^ (n div 2) * fact (n div 2)) else 0)"
  by (simp add: diffs_def gauss_coeff_def)

lemma neg_half_power: "(- (w::real) / 2) ^ k = (- 1) ^ k * w ^ k / 2 ^ k"
proof -
  have "(- w / 2) ^ k = ((- 1) * (w / 2)) ^ k" by simp
  also have "\<dots> = (- 1) ^ k * (w / 2) ^ k" by (rule power_mult_distrib)
  also have "\<dots> = (- 1) ^ k * w ^ k / 2 ^ k" by (simp add: power_divide)
  finally show ?thesis .
qed

lemma bell_series: "(\<lambda>n. diffs gauss_coeff n * v ^ n) sums exp (- v\<^sup>2 / 2)"
proof -
  let ?f = "\<lambda>k. (- v\<^sup>2 / 2) ^ k /\<^sub>R fact k"
  have f: "?f sums exp (- v\<^sup>2 / 2)"
    by (rule exp_converges)
  have z: "(\<lambda>n::nat. 0::real) sums 0"
    by simp
  have "(\<lambda>n. if even n then ?f (n div 2) else 0) sums (0 + exp (- v\<^sup>2 / 2))"
    by (rule sums_if [OF z f])
  moreover have "(if even n then ?f (n div 2) else 0) = diffs gauss_coeff n * v ^ n" for n
  proof (cases "even n")
    case True
    then obtain k where n: "n = 2 * k" by (auto elim: evenE)
    have "?f k = (- 1) ^ k * (v\<^sup>2) ^ k / 2 ^ k / fact k"
      by (simp only: neg_half_power) (simp add: divide_inverse)
    also have "\<dots> = (- 1) ^ k / (2 ^ k * fact k) * v ^ (2 * k)"
      by (simp add: power_mult)
    finally show ?thesis
      by (simp add: diffs_gauss_coeff n)
  next
    case False
    then show ?thesis by (simp add: diffs_gauss_coeff)
  qed
  ultimately show ?thesis by simp
qed


lemma gauss_coeff_odd:
  "gauss_coeff (Suc (2 * k)) = (- 1) ^ k / (2 ^ k * fact k * real (Suc (2 * k)))"
  by (simp add: gauss_coeff_def)

lemma gauss_term_bound:
  "norm (gauss_coeff (Suc (2 * k)) * v ^ Suc (2 * k)) \<le> \<bar>v\<bar> * ((v\<^sup>2 / 2) ^ k /\<^sub>R fact k)"
proof -
  define a :: real where "a = 2 ^ k * fact k"
  define m :: real where "m = real (Suc (2 * k))"
  define w :: real where "w = (v\<^sup>2) ^ k"
  have a: "0 < a" by (simp add: a_def)
  have m: "1 \<le> m" by (simp add: m_def)
  have w: "0 \<le> w" by (simp add: w_def)
  have c: "gauss_coeff (Suc (2 * k)) = (- 1) ^ k / (a * m)"
    unfolding a_def m_def by (rule gauss_coeff_odd)
  have "\<bar>(- 1) ^ k / (a * m)\<bar> = \<bar>(- 1::real) ^ k\<bar> / \<bar>a * m\<bar>"
    by (rule abs_divide)
  also have "\<bar>(- 1::real) ^ k\<bar> = 1"
    by (simp add: power_abs)
  also have "\<bar>a * m\<bar> = a * m"
    using a m by (intro abs_of_nonneg mult_nonneg_nonneg) auto
  finally have c_abs: "\<bar>gauss_coeff (Suc (2 * k))\<bar> = 1 / (a * m)"
    by (simp only: c)
  have "v ^ Suc (2 * k) = v * w"
    by (simp add: w_def power_mult)
  then have "\<bar>v ^ Suc (2 * k)\<bar> = \<bar>v\<bar> * \<bar>w\<bar>"
    by (simp only: abs_mult)
  then have p_abs: "\<bar>v ^ Suc (2 * k)\<bar> = \<bar>v\<bar> * w"
    using w by (simp only: abs_of_nonneg)
  have r: "(v\<^sup>2 / 2) ^ k /\<^sub>R fact k = w / a"
    by (simp add: w_def a_def power_divide field_simps)
  have "1 / (a * m) \<le> 1 / a"
    using a m by (intro divide_left_mono) (auto simp: mult_pos_pos)
  then have "1 / (a * m) * (\<bar>v\<bar> * w) \<le> 1 / a * (\<bar>v\<bar> * w)"
    using w by (intro mult_right_mono mult_nonneg_nonneg) auto
  also have "\<dots> = \<bar>v\<bar> * (w / a)"
    by simp
  finally have "\<bar>gauss_coeff (Suc (2 * k))\<bar> * \<bar>v ^ Suc (2 * k)\<bar> \<le> \<bar>v\<bar> * (w / a)"
    by (simp only: c_abs p_abs)
  then show ?thesis
    by (simp only: r real_norm_def abs_mult)
qed

lemma gauss_coeff_summable: "summable (\<lambda>n. gauss_coeff n * v ^ n)"
proof (rule summable_comparison_test' [where N = 0])
  let ?g = "\<lambda>k. \<bar>v\<bar> * ((v\<^sup>2 / 2) ^ k /\<^sub>R fact k)"
  have "(\<lambda>k. (v\<^sup>2 / 2) ^ k /\<^sub>R fact k) sums exp (v\<^sup>2 / 2)"
    by (rule exp_converges)
  then have "?g sums (\<bar>v\<bar> * exp (v\<^sup>2 / 2))"
    by (rule sums_mult)
  then have "(\<lambda>n. if even n then 0 else ?g ((n - 1) div 2)) sums (\<bar>v\<bar> * exp (v\<^sup>2 / 2))"
    by (rule sums_if')
  then show "summable (\<lambda>n. if even n then 0 else ?g ((n - 1) div 2))"
    by (rule sums_summable)
next
  fix n :: nat
  assume "0 \<le> n"
  show "norm (gauss_coeff n * v ^ n) \<le> (if even n then 0 else \<bar>v\<bar> * ((v\<^sup>2 / 2) ^ ((n - 1) div 2) /\<^sub>R fact ((n - 1) div 2)))"
  proof (cases "even n")
    case True
    then show ?thesis by (simp add: gauss_coeff_def)
  next
    case False
    then obtain k where n: "n = Suc (2 * k)" by (auto elim: oddE)
    show ?thesis
      unfolding n using gauss_term_bound [of k v] by simp
  qed
qed

lemma DERIV_gauss_integral: "DERIV gauss_integral v :> exp (- v\<^sup>2 / 2)"
proof -
  have "((\<lambda>x. \<Sum>n. gauss_coeff n * x ^ n) has_field_derivative (\<Sum>n. diffs gauss_coeff n * v ^ n)) (at v)"
    by (rule termdiffs_strong_converges_everywhere) (rule gauss_coeff_summable)
  moreover have "(\<Sum>n. diffs gauss_coeff n * v ^ n) = exp (- v\<^sup>2 / 2)"
    using bell_series by (rule sums_unique [symmetric])
  ultimately show ?thesis
    by (simp add: gauss_integral_def [abs_def])
qed

lemma gauss_integral_0: "gauss_integral 0 = 0"
proof -
  have "gauss_coeff n * 0 ^ n = 0" for n
    by (cases n) (simp_all add: gauss_coeff_def)
  then have "(\<lambda>n. gauss_coeff n * 0 ^ n) = (\<lambda>n. 0)"
    by (rule ext)
  then show ?thesis
    unfolding gauss_integral_def by (simp only: suminf_zero)
qed

lemma gauss_integral_odd: "gauss_integral (- v) = - gauss_integral v"
proof -
  let ?h = "\<lambda>x. gauss_integral x + gauss_integral (- x)"
  have d: "DERIV ?h x :> 0" for x
  proof -
    have m: "(uminus has_real_derivative - 1) (at x)"
      by (auto intro!: derivative_eq_intros)
    have "((\<lambda>x. gauss_integral (- x)) has_real_derivative exp (- (- x)\<^sup>2 / 2) * (- 1)) (at x)"
      by (rule DERIV_chain' [OF m DERIV_gauss_integral])
    then have "(?h has_real_derivative exp (- x\<^sup>2 / 2) + exp (- (- x)\<^sup>2 / 2) * (- 1)) (at x)"
      by (rule DERIV_add [OF DERIV_gauss_integral])
    then show ?thesis by simp
  qed
  have "?h v = ?h 0"
    by (rule DERIV_isconst_all) (rule allI, rule d)
  then show ?thesis by (simp add: gauss_integral_0)
qed

lemma gauss_integral_mono: "u \<le> v \<Longrightarrow> gauss_integral u \<le> gauss_integral v"
  by (rule DERIV_nonneg_imp_nondecreasing [where f = gauss_integral])
     (auto intro!: exI [where x = "exp _"] DERIV_gauss_integral)

lemma gauss_integral_strict_mono: "u < v \<Longrightarrow> gauss_integral u < gauss_integral v"
  by (rule DERIV_pos_imp_increasing [where f = gauss_integral])
     (auto intro!: exI [where x = "exp _"] DERIV_gauss_integral)

lemma bell_le_exp: "exp (- v\<^sup>2 / 2) \<le> exp (1 / 2 - (v::real))"
proof -
  have "(1 / 2 - v) - (- v\<^sup>2 / 2) = (v - 1)\<^sup>2 / 2"
    by (simp add: power2_eq_square field_simps)
  moreover have "0 \<le> (v - 1)\<^sup>2 / 2"
    by simp
  ultimately have "- v\<^sup>2 / 2 \<le> 1 / 2 - v"
    by linarith
  then show ?thesis by simp
qed

lemma gauss_integral_le: "gauss_integral v \<le> exp (1 / 2)"
proof (cases "0 \<le> v")
  case True
  let ?h = "\<lambda>x. gauss_integral x + exp (1 / 2 - x)"
  have "?h v \<le> ?h 0"
  proof (rule DERIV_nonpos_imp_nonincreasing [OF True])
    fix x :: real
    have "(?h has_real_derivative exp (- x\<^sup>2 / 2) + exp (1 / 2 - x) * (0 - 1)) (at x)"
      by (intro DERIV_add DERIV_gauss_integral derivative_intros)
    moreover have "exp (- x\<^sup>2 / 2) + exp (1 / 2 - x) * (0 - 1) \<le> 0"
      using bell_le_exp [of x] by simp
    ultimately show "\<exists>y. (?h has_real_derivative y) (at x) \<and> y \<le> 0"
      by blast
  qed
  then have "gauss_integral v + exp (1 / 2 - v) \<le> exp (1 / 2)"
    by (simp add: gauss_integral_0)
  moreover have "0 \<le> exp (1 / 2 - v)" by simp
  ultimately show ?thesis by linarith
next
  case False
  then have "gauss_integral v \<le> gauss_integral 0"
    by (intro gauss_integral_mono) simp
  also have "\<dots> \<le> exp (1 / 2)" by (simp add: gauss_integral_0)
  finally show ?thesis .
qed

lemma gauss_integral_bdd: "bdd_above (range gauss_integral)"
  by (rule bdd_aboveI [where M = "exp (1 / 2)"]) (auto simp: gauss_integral_le)

lemma gauss_integral_le_mass: "gauss_integral v \<le> gauss_mass / 2"
  unfolding gauss_mass_def using cSUP_upper [OF UNIV_I gauss_integral_bdd, of v] by simp

lemma gauss_integral_ge_mass: "- (gauss_mass / 2) \<le> gauss_integral v"
  using gauss_integral_le_mass [of "- v"] by (simp add: gauss_integral_odd)

lemma gauss_mass_pos: "0 < gauss_mass"
proof -
  have "gauss_integral 0 < gauss_integral 1"
    by (rule gauss_integral_strict_mono) simp
  then show ?thesis
    using gauss_integral_le_mass [of 1] by (simp add: gauss_integral_0)
qed

lemma norm_cdf_nonneg: "0 \<le> norm_cdf v"
proof -
  have "(- (gauss_mass / 2)) / gauss_mass \<le> gauss_integral v / gauss_mass"
    using gauss_integral_ge_mass [of v] gauss_mass_pos by (intro divide_right_mono) auto
  moreover have "(- (gauss_mass / 2)) / gauss_mass = - (1 / 2)"
    using gauss_mass_pos by simp
  ultimately show ?thesis by (simp add: norm_cdf_def)
qed

lemma norm_cdf_le_1: "norm_cdf v \<le> 1"
proof -
  have "gauss_integral v / gauss_mass \<le> (gauss_mass / 2) / gauss_mass"
    using gauss_integral_le_mass [of v] gauss_mass_pos by (intro divide_right_mono) auto
  moreover have "(gauss_mass / 2) / gauss_mass = 1 / 2"
    using gauss_mass_pos by simp
  ultimately show ?thesis by (simp add: norm_cdf_def)
qed

lemma norm_cdf_minus: "norm_cdf (- v) = 1 - norm_cdf v"
  by (simp add: norm_cdf_def gauss_integral_odd)

lemma DERIV_norm_cdf: "DERIV norm_cdf v :> exp (- v\<^sup>2 / 2) / gauss_mass"
proof -
  have "((\<lambda>x. 1 / 2 + gauss_integral x / gauss_mass) has_real_derivative
          0 + exp (- v\<^sup>2 / 2) / gauss_mass) (at v)"
    by (intro DERIV_add DERIV_cdivide DERIV_gauss_integral DERIV_const)
  then show ?thesis by (simp add: norm_cdf_def [abs_def])
qed

lemma norm_pdf_pos: "0 < norm_pdf v"
  by (simp add: norm_pdf_def)

section \<open>Results: analytical pricer\<close>

text \<open>
  Every way the pricer can fail on Python operands, in the order Python meets them, and
  the value it returns otherwise: the formula of the spec at the unmodified arguments.
\<close>

lemma d1_expr_cases:
  "d1_expr S K T r sigma =
     (if K = 0 then Inl ZeroDivisionError
      else if S / K \<le> 0 then Inl ValueError
      else if T < 0 then Inl ValueError
      else if sigma * sqrt T = 0 then Inl ZeroDivisionError
      else Inr (spec_d1 S K T r sigma))"
  by (simp add: d1_expr_def and_then_def py_truediv_def math_log_def math_sqrt_def spec_d1_def)

lemma rho_d2_expr_cases:
  "rho_d2_expr S K T r sigma =
     (if K = 0 then Inl ZeroDivisionError
      else if S / K \<le> 0 then Inl ValueError
      else if T < 0 then Inl ValueError
      else if sigma * sqrt T = 0 then Inl ZeroDivisionError
      else Inr ((ln (S / K) + (r - 0.5 * sigma\<^sup>2) * T) / (sigma * sqrt T)))"
  by (simp add: rho_d2_expr_def and_then_def py_truediv_def math_log_def math_sqrt_def)

lemma black_scholes_call_cases:
  "black_scholes_call S K T r sigma =
     (if K = 0 then Inl ZeroDivisionError
      else if S / K \<le> 0 then Inl ValueError
      else if T < 0 then Inl ValueError
      else if sigma * sqrt T = 0 then Inl ZeroDivisionError
      else Inr (spec_call S K T r sigma))"
  by (simp add: black_scholes_call_def d1_expr_cases and_then_def math_sqrt_def spec_call_def
      spec_d2_def Let_def)

lemma black_scholes_put_cases:
  "black_scholes_put S K T r sigma =
     (if K = 0 then Inl ZeroDivisionError
      else if S / K \<le> 0 then Inl ValueError
      else if T < 0 then Inl ValueError
      else if sigma * sqrt T = 0 then Inl ZeroDivisionError
      else Inr (spec_put S K T r sigma))"
  by (simp add: black_scholes_put_def d1_expr_cases and_then_def math_sqrt_def spec_put_def
      spec_d2_def Let_def)

lemma valid_guards:
  fixes S K T sigma :: real
  assumes "0 < S" "0 < K" "0 < T" "0 < sigma"
  shows "K \<noteq> 0" "\<not> S / K \<le> 0" "\<not> T < 0" "sigma * sqrt T \<noteq> 0"
  using assms by (simp_all add: not_le)

lemma black_scholes_call_valid:
  assumes "0 < S" "0 < K" "0 < T" "0 < sigma"
  shows "black_scholes_call S K T r sigma = Inr (spec_call S K T r sigma)"
  by (simp only: black_scholes_call_cases valid_guards [OF assms] if_False)

lemma black_scholes_put_valid:
  assumes "0 < S" "0 < K" "0 < T" "0 < sigma"
  shows "black_scholes_put S K T r sigma = Inr (spec_put S K T r sigma)"
  by (simp only: black_scholes_put_cases valid_guards [OF assms] if_False)

lemma spec_parity: "spec_call S K T r sigma - spec_put S K T r sigma = S - K * exp (- r * T)"
  by (simp add: spec_call_def spec_put_def norm_cdf_minus algebra_simps)

text \<open>
  Claim C5 (put-call parity). For all valid inputs \<open>S, K, T, sigma > 0\<close> and any real \<open>r\<close>, both
  analytical prices are returned and the call price minus the put price equals
  \<open>S - K * exp (- r * T)\<close>. The equality is exact over the reals, hence within the
  absolute tolerance \<open>1 / 10 ^ 9\<close>.
\<close>

theorem put_call_parity:
  assumes "0 < S" "0 < K" "0 < T" "0 < sigma"
  shows "\<exists>c p. black_scholes_call S K T r sigma = Inr c
             \<and> black_scholes_put S K T r sigma = Inr p
             \<and> c - p = S - K * exp (- r * T)
             \<and> \<bar>(c - p) - (S - K * exp (- r * T))\<bar> \<le> 1 / 10 ^ 9"
  by (simp add: black_scholes_call_valid [OF assms] black_scholes_put_valid [OF assms] spec_parity)

text \<open>
  The parity theorem at the reference scenario of the spec:
  \<open>S = 100\<close>, \<open>K = 100\<close>, \<open>T = 1\<close>, \<open>r = 0.05\<close>, \<open>sigma = 0.2\<close>.
\<close>

theorem put_call_parity_witness:
  "(0::real) < 100 \<and> (0::real) < 100 \<and> (0::real) < 1 \<and> (0::real) < 2 / 10
   \<and> (\<exists>c p. black_scholes_call 100 100 1 (5 / 100) (2 / 10) = Inr c
           \<and> black_scholes_put 100 100 1 (5 / 100) (2 / 10) = Inr p
           \<and> c - p = 100 - 100 * exp (- (5 / 100) * 1)
           \<and> \<bar>(c - p) - (100 - 100 * exp (- (5 / 100) * 1))\<bar> \<le> 1 / 10 ^ 9)"
  using put_call_parity [of 100 100 1 "2 / 10" "5 / 100"] by simp

subsection \<open>Monotonicity of the prices\<close>

text \<open>
  The bell curve at \<open>d2\<close> and at \<open>d1\<close> differ by the factor \<open>S / K * exp (r * T)\<close>. With it
  the derivative of the call value in the spot price is \<open>norm_cdf d1\<close>, and its derivative
  in the volatility is \<open>S * exp (- d1\<^sup>2 / 2) * sqrt T / gauss_mass\<close>; both are non-negative, and
  \<open>1 - norm_cdf d1\<close> is non-negative too. The put value is the call value minus
  \<open>S - K * exp (- r * T)\<close>.
\<close>

lemma bell_identity:
  assumes "0 < S" "0 < K" "0 < T" "sigma \<noteq> 0"
  shows "K * exp (- r * T) * exp (- (spec_d2 S K T r sigma)\<^sup>2 / 2)
       = S * exp (- (spec_d1 S K T r sigma)\<^sup>2 / 2)"
proof -
  define d where "d = spec_d1 S K T r sigma"
  define v where "v = sigma * sqrt T"
  have v: "v \<noteq> 0" and v2: "v\<^sup>2 = sigma\<^sup>2 * T"
    using assms by (simp_all add: v_def power_mult_distrib)
  have dv: "d * v = ln (S / K) + (r + 0.5 * sigma\<^sup>2) * T"
    using v unfolding d_def spec_d1_def v_def by simp
  have "- (d - v)\<^sup>2 / 2 = - d\<^sup>2 / 2 + d * v - v\<^sup>2 / 2"
    by (simp add: power2_eq_square field_simps)
  also have "\<dots> = - d\<^sup>2 / 2 + (ln (S / K) + r * T)"
    by (simp only: dv v2) (simp add: algebra_simps)
  finally have "exp (- (d - v)\<^sup>2 / 2) = exp (- d\<^sup>2 / 2) * (exp (ln (S / K)) * exp (r * T))"
    by (simp only: exp_add)
  also have "exp (ln (S / K)) = S / K"
    using assms by simp
  finally have "K * exp (- r * T) * exp (- (d - v)\<^sup>2 / 2)
      = K * (S / K) * (exp (- r * T) * exp (r * T)) * exp (- d\<^sup>2 / 2)"
    by simp
  also have "exp (- r * T) * exp (r * T) = 1"
    by (simp flip: exp_add)
  also have "K * (S / K) = S"
    using assms by simp
  finally show ?thesis
    by (simp add: spec_d2_def d_def v_def)
qed

lemma DERIV_price:
  assumes "DERIV s x :> c" "DERIV d x :> a" "DERIV e x :> b"
  shows "DERIV (\<lambda>x. s x * norm_cdf (d x) - k * norm_cdf (e x)) x
           :> (c * norm_cdf (d x) + exp (- (d x)\<^sup>2 / 2) / gauss_mass * a * s x)
              - k * (exp (- (e x)\<^sup>2 / 2) / gauss_mass * b)"
proof -
  have 1: "DERIV (\<lambda>x. norm_cdf (d x)) x :> exp (- (d x)\<^sup>2 / 2) / gauss_mass * a"
    by (rule DERIV_chain2 [OF DERIV_norm_cdf assms(2)])
  have 2: "DERIV (\<lambda>x. norm_cdf (e x)) x :> exp (- (e x)\<^sup>2 / 2) / gauss_mass * b"
    by (rule DERIV_chain2 [OF DERIV_norm_cdf assms(3)])
  show ?thesis
    by (rule DERIV_diff [OF DERIV_mult [OF assms(1) 1] DERIV_cmult [OF 2]])
qed

lemma DERIV_spec_d1_S:
  assumes "0 < S" "0 < K"
  shows "\<exists>a. DERIV (\<lambda>S. spec_d1 S K T r sigma) S :> a"
proof -
  have "\<exists>a. DERIV (\<lambda>S. ln (S / K) + (r + 0.5 * sigma\<^sup>2) * T) S :> a"
    using assms by (intro exI) (auto intro!: derivative_eq_intros)
  then obtain a where "DERIV (\<lambda>S. ln (S / K) + (r + 0.5 * sigma\<^sup>2) * T) S :> a"
    by blast
  then have "DERIV (\<lambda>S. (ln (S / K) + (r + 0.5 * sigma\<^sup>2) * T) / (sigma * sqrt T)) S
               :> a / (sigma * sqrt T)"
    by (rule DERIV_cdivide)
  then show ?thesis
    unfolding spec_d1_def [abs_def] by blast
qed

lemma DERIV_spec_d1_sigma:
  assumes "0 < T" "sigma \<noteq> 0"
  shows "\<exists>a. DERIV (\<lambda>sigma. spec_d1 S K T r sigma) sigma :> a"
proof -
  have "\<exists>a. DERIV (\<lambda>sigma. (ln (S / K) + (r + 0.5 * sigma\<^sup>2) * T) / (sigma * sqrt T)) sigma :> a"
    using assms by (intro exI) (auto intro!: derivative_eq_intros)
  then show ?thesis
    by (simp add: spec_d1_def [abs_def])
qed

lemma DERIV_spec_call_S:
  assumes "0 < S" "0 < K" "0 < T" "sigma \<noteq> 0"
  shows "DERIV (\<lambda>S. spec_call S K T r sigma) S :> norm_cdf (spec_d1 S K T r sigma)"
proof -
  obtain a where a: "DERIV (\<lambda>S. spec_d1 S K T r sigma) S :> a"
    using DERIV_spec_d1_S [OF assms(1,2)] by blast
  have "DERIV (\<lambda>S. spec_d1 S K T r sigma - sigma * sqrt T) S :> a - 0"
    by (rule DERIV_diff [OF a DERIV_const])
  then have b: "DERIV (\<lambda>S. spec_d2 S K T r sigma) S :> a"
    by (simp add: spec_d2_def [abs_def])
  have i: "DERIV (\<lambda>S. S) S :> 1"
    by (rule DERIV_ident)
  note d = DERIV_price [OF i a b, of "K * exp (- r * T)"]
  have "(1 * norm_cdf (spec_d1 S K T r sigma)
          + exp (- (spec_d1 S K T r sigma)\<^sup>2 / 2) / gauss_mass * a * S)
        - K * exp (- r * T) * (exp (- (spec_d2 S K T r sigma)\<^sup>2 / 2) / gauss_mass * a)
      = norm_cdf (spec_d1 S K T r sigma)
        + (S * exp (- (spec_d1 S K T r sigma)\<^sup>2 / 2)
           - K * exp (- r * T) * exp (- (spec_d2 S K T r sigma)\<^sup>2 / 2)) * (a / gauss_mass)"
    by (simp add: algebra_simps)
  also have "\<dots> = norm_cdf (spec_d1 S K T r sigma)"
    by (simp only: bell_identity [OF assms]) simp
  finally show ?thesis
    using d by (simp only: spec_call_def [abs_def])
qed

lemma DERIV_spec_call_sigma:
  assumes "0 < S" "0 < K" "0 < T" "sigma \<noteq> 0"
  shows "DERIV (\<lambda>sigma. spec_call S K T r sigma) sigma
           :> S * exp (- (spec_d1 S K T r sigma)\<^sup>2 / 2) * sqrt T / gauss_mass"
proof -
  obtain a where a: "DERIV (\<lambda>sigma. spec_d1 S K T r sigma) sigma :> a"
    using DERIV_spec_d1_sigma [OF assms(3,4)] by blast
  have "DERIV (\<lambda>sigma. sigma * sqrt T) sigma :> 1 * sqrt T"
    by (rule DERIV_cmult_right [OF DERIV_ident])
  then have "DERIV (\<lambda>sigma. spec_d1 S K T r sigma - sigma * sqrt T) sigma :> a - 1 * sqrt T"
    by (rule DERIV_diff [OF a])
  then have b: "DERIV (\<lambda>sigma. spec_d2 S K T r sigma) sigma :> a - 1 * sqrt T"
    by (simp add: spec_d2_def [abs_def])
  have c: "DERIV (\<lambda>sigma. S) sigma :> 0"
    by (rule DERIV_const)
  note d = DERIV_price [OF c a b, of "K * exp (- r * T)"]
  have "(0 * norm_cdf (spec_d1 S K T r sigma)
          + exp (- (spec_d1 S K T r sigma)\<^sup>2 / 2) / gauss_mass * a * S)
        - K * exp (- r * T) * (exp (- (spec_d2 S K T r sigma)\<^sup>2 / 2) / gauss_mass * (a - 1 * sqrt T))
      = (S * exp (- (spec_d1 S K T r sigma)\<^sup>2 / 2)
           - K * exp (- r * T) * exp (- (spec_d2 S K T r sigma)\<^sup>2 / 2)) * (a / gauss_mass)
        + K * exp (- r * T) * exp (- (spec_d2 S K T r sigma)\<^sup>2 / 2) * sqrt T / gauss_mass"
    by (simp add: algebra_simps diff_divide_distrib)
  also have "\<dots> = S * exp (- (spec_d1 S K T r sigma)\<^sup>2 / 2) * sqrt T / gauss_mass"
    by (simp only: bell_identity [OF assms]) simp
  finally show ?thesis
    using d by (simp only: spec_call_def [abs_def])
qed

lemma spec_call_mono_S:
  assumes "0 < K" "0 < T" "0 < sigma" "0 < S1" "S1 \<le> S2"
  shows "spec_call S1 K T r sigma \<le> spec_call S2 K T r sigma"
proof (rule DERIV_nonneg_imp_nondecreasing [OF assms(5)])
  fix x :: real
  assume "S1 \<le> x" "x \<le> S2"
  then have x: "0 < x" using assms(4) by simp
  have "DERIV (\<lambda>S. spec_call S K T r sigma) x :> norm_cdf (spec_d1 x K T r sigma)"
    using assms by (intro DERIV_spec_call_S x) auto
  then show "\<exists>y. DERIV (\<lambda>S. spec_call S K T r sigma) x :> y \<and> 0 \<le> y"
    using norm_cdf_nonneg by blast
qed

lemma spec_call_lipschitz_S:
  assumes "0 < K" "0 < T" "0 < sigma" "0 < S1" "S1 \<le> S2"
  shows "S1 - spec_call S1 K T r sigma \<le> S2 - spec_call S2 K T r sigma"
proof (rule DERIV_nonneg_imp_nondecreasing [OF assms(5)])
  fix x :: real
  assume "S1 \<le> x" "x \<le> S2"
  then have x: "0 < x" using assms(4) by simp
  have "DERIV (\<lambda>S. spec_call S K T r sigma) x :> norm_cdf (spec_d1 x K T r sigma)"
    using assms by (intro DERIV_spec_call_S x) auto
  then have "DERIV (\<lambda>S. S - spec_call S K T r sigma) x :> 1 - norm_cdf (spec_d1 x K T r sigma)"
    by (rule DERIV_diff [OF DERIV_ident])
  moreover have "0 \<le> 1 - norm_cdf (spec_d1 x K T r sigma)"
    using norm_cdf_le_1 [of "spec_d1 x K T r sigma"] by simp
  ultimately show "\<exists>y. DERIV (\<lambda>S. S - spec_call S K T r sigma) x :> y \<and> 0 \<le> y"
    by blast
qed

lemma spec_put_eq: "spec_put S K T r sigma = spec_call S K T r sigma - S + K * exp (- r * T)"
  using spec_parity [of S K T r sigma] by simp

lemma spec_put_antimono_S:
  assumes "0 < K" "0 < T" "0 < sigma" "0 < S1" "S1 \<le> S2"
  shows "spec_put S2 K T r sigma \<le> spec_put S1 K T r sigma"
  using spec_call_lipschitz_S [OF assms, of r] by (simp add: spec_put_eq)

lemma spec_call_mono_sigma:
  assumes "0 < S" "0 < K" "0 < T" "0 < sigma1" "sigma1 \<le> sigma2"
  shows "spec_call S K T r sigma1 \<le> spec_call S K T r sigma2"
proof (rule DERIV_nonneg_imp_nondecreasing [OF assms(5)])
  fix x :: real
  assume "sigma1 \<le> x" "x \<le> sigma2"
  then have x: "x \<noteq> 0" using assms(4) by simp
  have "DERIV (\<lambda>sigma. spec_call S K T r sigma) x
          :> S * exp (- (spec_d1 S K T r x)\<^sup>2 / 2) * sqrt T / gauss_mass"
    by (rule DERIV_spec_call_sigma [OF assms(1,2,3) x])
  moreover have "0 \<le> S * exp (- (spec_d1 S K T r x)\<^sup>2 / 2) * sqrt T / gauss_mass"
    using assms(1,3) gauss_mass_pos by simp
  ultimately show "\<exists>y. DERIV (\<lambda>sigma. spec_call S K T r sigma) x :> y \<and> 0 \<le> y"
    by blast
qed

lemma spec_put_mono_sigma:
  assumes "0 < S" "0 < K" "0 < T" "0 < sigma1" "sigma1 \<le> sigma2"
  shows "spec_put S K T r sigma1 \<le> spec_put S K T r sigma2"
  using spec_call_mono_sigma [OF assms, of r] by (simp add: spec_put_eq)

text \<open>
  Claim C6 (monotonicity). For valid inputs (\<open>K, T > 0\<close>, spot prices \<open>0 < S1 \<le> S2\<close>,
  volatilities \<open>0 < sigma1 \<le> sigma2\<close>, any real \<open>r\<close>) the pricer returns a price at each of them;
  the call price is non-decreasing in \<open>S\<close> and in \<open>sigma\<close>, and the put price is non-increasing
  in \<open>S\<close> and non-decreasing in \<open>sigma\<close>.
\<close>

theorem price_monotonicity:
  assumes "0 < K" "0 < T" "0 < S1" "S1 \<le> S2" "0 < sigma1" "sigma1 \<le> sigma2"
  shows "\<exists>c c_S c_sigma p p_S p_sigma.
           black_scholes_call S1 K T r sigma1 = Inr c
         \<and> black_scholes_call S2 K T r sigma1 = Inr c_S
         \<and> black_scholes_call S1 K T r sigma2 = Inr c_sigma
         \<and> black_scholes_put S1 K T r sigma1 = Inr p
         \<and> black_scholes_put S2 K T r sigma1 = Inr p_S
         \<and> black_scholes_put S1 K T r sigma2 = Inr p_sigma
         \<and> c \<le> c_S \<and> c \<le> c_sigma \<and> p_S \<le> p \<and> p \<le> p_sigma"
proof -
  have S2: "0 < S2" and sigma2: "0 < sigma2"
    using assms by simp_all
  show ?thesis
    by (simp add: black_scholes_call_valid black_scholes_put_valid assms S2 sigma2
        spec_call_mono_S spec_put_antimono_S spec_call_mono_sigma spec_put_mono_sigma)
qed

text \<open>
  The monotonicity theorem between the reference scenario and a higher spot price
  (\<open>110\<close>) and a higher volatility (\<open>0.3\<close>).
\<close>

theorem price_monotonicity_witness:
  "(0::real) < 100 \<and> (0::real) < 1 \<and> (0::real) < 100 \<and> (100::real) \<le> 110
   \<and> (0::real) < 2 / 10 \<and> (2::real) / 10 \<le> 3 / 10
   \<and> (\<exists>c c_S c_sigma p p_S p_sigma.
           black_scholes_call 100 100 1 (5 / 100) (2 / 10) = Inr c
         \<and> black_scholes_call 110 100 1 (5 / 100) (2 / 10) = Inr c_S
         \<and> black_scholes_call 100 100 1 (5 / 100) (3 / 10) = Inr c_sigma
         \<and> black_scholes_put 100 100 1 (5 / 100) (2 / 10) = Inr p
         \<and> black_scholes_put 110 100 1 (5 / 100) (2 / 10) = Inr p_S
         \<and> black_scholes_put 100 100 1 (5 / 100) (3 / 10) = Inr p_sigma
         \<and> c \<le> c_S \<and> c \<le> c_sigma \<and> p_S \<le> p \<and> p \<le> p_sigma)"
  using price_monotonicity [of 100 1 100 110 "2 / 10" "3 / 10" "5 / 100"] by simp

section \<open>Results: Greeks engine\<close>

lemma d1_expr_valid:
  assumes "0 < S" "0 < K" "0 < T" "0 < sigma"
  shows "d1_expr S K T r sigma = Inr (spec_d1 S K T r sigma)"
  by (simp only: d1_expr_cases valid_guards [OF assms] if_False)

lemma rho_d2_is_spec_d2:
  assumes "0 < T" "sigma \<noteq> 0"
  shows "(ln (S / K) + (r - 0.5 * sigma\<^sup>2) * T) / (sigma * sqrt T) = spec_d2 S K T r sigma"
proof -
  have nz: "sigma * sqrt T \<noteq> 0"
    using assms by simp
  have sq: "sigma * sqrt T * (sigma * sqrt T) = sigma\<^sup>2 * T"
    using assms by (simp add: power2_eq_square)
  have "spec_d2 S K T r sigma
      = ((ln (S / K) + (r + 0.5 * sigma\<^sup>2) * T) - sigma * sqrt T * (sigma * sqrt T)) / (sigma * sqrt T)"
    unfolding spec_d2_def spec_d1_def using nz by (simp add: diff_divide_distrib)
  also have "\<dots> = (ln (S / K) + (r - 0.5 * sigma\<^sup>2) * T) / (sigma * sqrt T)"
    by (simp only: sq) (simp add: algebra_simps)
  finally show ?thesis by simp
qed

lemma rho_d2_expr_valid:
  assumes "0 < S" "0 < K" "0 < T" "0 < sigma"
  shows "rho_d2_expr S K T r sigma = Inr (spec_d2 S K T r sigma)"
proof -
  have "rho_d2_expr S K T r sigma = Inr ((ln (S / K) + (r - 0.5 * sigma\<^sup>2) * T) / (sigma * sqrt T))"
    by (simp only: rho_d2_expr_cases valid_guards [OF assms] if_False)
  moreover have "(ln (S / K) + (r - 0.5 * sigma\<^sup>2) * T) / (sigma * sqrt T) = spec_d2 S K T r sigma"
    using assms by (intro rho_d2_is_spec_d2) auto
  ultimately show ?thesis
    by (simp only:)
qed

lemma gamma_cases:
  "gamma S K T r sigma =
     (if K = 0 then Inl ZeroDivisionError
      else if S / K \<le> 0 then Inl ValueError
      else if T < 0 then Inl ValueError
      else if sigma * sqrt T = 0 then Inl ZeroDivisionError
      else Inr (norm_pdf (spec_d1 S K T r sigma) / (S * sigma * sqrt T)))"
  by (auto simp: gamma_def d1_expr_cases and_then_def math_sqrt_def py_truediv_def)

lemma vega_cases:
  "vega S K T r sigma =
     (if K = 0 then Inl ZeroDivisionError
      else if S / K \<le> 0 then Inl ValueError
      else if T < 0 then Inl ValueError
      else if sigma * sqrt T = 0 then Inl ZeroDivisionError
      else Inr (S * norm_pdf (spec_d1 S K T r sigma) * sqrt T / 100))"
  by (simp add: vega_def d1_expr_cases and_then_def math_sqrt_def)

lemma theta_call_cases:
  "theta_call S K T r sigma =
     (if K = 0 then Inl ZeroDivisionError
      else if S / K \<le> 0 then Inl ValueError
      else if T < 0 then Inl ValueError
      else if sigma * sqrt T = 0 then Inl ZeroDivisionError
      else Inr ((- S * norm_pdf (spec_d1 S K T r sigma) * sigma / (2 * sqrt T)
                 - r * K * exp (- r * T) * norm_cdf (spec_d2 S K T r sigma)) / 365))"
  by (simp add: theta_call_def d1_expr_cases and_then_def math_sqrt_def py_truediv_def
      spec_d2_def Let_def)

lemma theta_put_cases:
  "theta_put S K T r sigma =
     (if K = 0 then Inl ZeroDivisionError
      else if S / K \<le> 0 then Inl ValueError
      else if T < 0 then Inl ValueError
      else if sigma * sqrt T = 0 then Inl ZeroDivisionError
      else Inr ((- S * norm_pdf (spec_d1 S K T r sigma) * sigma / (2 * sqrt T)
                 + r * K * exp (- r * T) * norm_cdf (- spec_d2 S K T r sigma)) / 365))"
  by (simp add: theta_put_def d1_expr_cases and_then_def math_sqrt_def py_truediv_def
      spec_d2_def Let_def)

text \<open>
  Over the reals, and for all valid inputs, every function of the engine returns the
  formula of the spec in the same two terms \<open>d1\<close> and \<open>d2 = d1 - sigma * sqrt T\<close>: in
  particular \<open>rho_call\<close> returns \<open>K * T * exp (- r * T) * norm_cdf d2 / 100\<close> and \<open>rho_put\<close>
  returns \<open>- K * T * exp (- r * T) * norm_cdf (- d2) / 100\<close>.
\<close>

lemma rho_formulas:
  assumes "0 < S" "0 < K" "0 < T" "0 < sigma"
  shows "rho_call S K T r sigma
           = Inr (K * T * exp (- r * T) * norm_cdf (spec_d2 S K T r sigma) / 100)
       \<and> rho_put S K T r sigma
           = Inr (- K * T * exp (- r * T) * norm_cdf (- spec_d2 S K T r sigma) / 100)
       \<and> black_scholes_call S K T r sigma
           = Inr (S * norm_cdf (spec_d1 S K T r sigma)
                  - K * exp (- r * T) * norm_cdf (spec_d2 S K T r sigma))
       \<and> black_scholes_put S K T r sigma
           = Inr (K * exp (- r * T) * norm_cdf (- spec_d2 S K T r sigma)
                  - S * norm_cdf (- spec_d1 S K T r sigma))
       \<and> delta_call S K T r sigma = Inr (norm_cdf (spec_d1 S K T r sigma))
       \<and> delta_put S K T r sigma = Inr (norm_cdf (spec_d1 S K T r sigma) - 1)
       \<and> gamma S K T r sigma = Inr (norm_pdf (spec_d1 S K T r sigma) / (S * sigma * sqrt T))
       \<and> vega S K T r sigma = Inr (S * norm_pdf (spec_d1 S K T r sigma) * sqrt T / 100)
       \<and> theta_call S K T r sigma
           = Inr ((- S * norm_pdf (spec_d1 S K T r sigma) * sigma / (2 * sqrt T)
                   - r * K * exp (- r * T) * norm_cdf (spec_d2 S K T r sigma)) / 365)
       \<and> theta_put S K T r sigma
           = Inr ((- S * norm_pdf (spec_d1 S K T r sigma) * sigma / (2 * sqrt T)
                   + r * K * exp (- r * T) * norm_cdf (- spec_d2 S K T r sigma)) / 365)"
proof -
  note g = valid_guards [OF assms]
  have "rho_call S K T r sigma
           = Inr (K * T * exp (- r * T) * norm_cdf (spec_d2 S K T r sigma) / 100)"
    by (simp add: rho_call_def rho_d2_expr_valid [OF assms] and_then_def)
  moreover have "rho_put S K T r sigma
           = Inr (- K * T * exp (- r * T) * norm_cdf (- spec_d2 S K T r sigma) / 100)"
    by (simp add: rho_put_def rho_d2_expr_valid [OF assms] and_then_def)
  moreover have "black_scholes_call S K T r sigma
           = Inr (S * norm_cdf (spec_d1 S K T r sigma)
                  - K * exp (- r * T) * norm_cdf (spec_d2 S K T r sigma))"
    by (simp only: black_scholes_call_valid [OF assms] spec_call_def)
  moreover have "black_scholes_put S K T r sigma
           = Inr (K * exp (- r * T) * norm_cdf (- spec_d2 S K T r sigma)
                  - S * norm_cdf (- spec_d1 S K T r sigma))"
    by (simp only: black_scholes_put_valid [OF assms] spec_put_def)
  moreover have "delta_call S K T r sigma = Inr (norm_cdf (spec_d1 S K T r sigma))"
    by (simp add: delta_call_def d1_expr_valid [OF assms] and_then_def)
  moreover have "delta_put S K T r sigma = Inr (norm_cdf (spec_d1 S K T r sigma) - 1)"
    by (simp add: delta_put_def d1_expr_valid [OF assms] and_then_def)
  moreover have "gamma S K T r sigma = Inr (norm_pdf (spec_d1 S K T r sigma) / (S * sigma * sqrt T))"
    by (simp only: gamma_cases g if_False)
  moreover have "vega S K T r sigma = Inr (S * norm_pdf (spec_d1 S K T r sigma) * sqrt T / 100)"
    by (simp only: vega_cases g if_False)
  moreover have "theta_call S K T r sigma
           = Inr ((- S * norm_pdf (spec_d1 S K T r sigma) * sigma / (2 * sqrt T)
                   - r * K * exp (- r * T) * norm_cdf (spec_d2 S K T r sigma)) / 365)"
    by (simp only: theta_call_cases g if_False)
  moreover have "theta_put S K T r sigma
           = Inr ((- S * norm_pdf (spec_d1 S K T r sigma) * sigma / (2 * sqrt T)
                   + r * K * exp (- r * T) * norm_cdf (- spec_d2 S K T r sigma)) / 365)"
    by (simp only: theta_put_cases g if_False)
  ultimately show ?thesis
    by (simp only: simp_thms)
qed

subsection \<open>The two computations of d2\<close>




















text \<open>
  Claim C8 (sign conventions). For all valid inputs \<open>S, K, T, sigma > 0\<close> and any real \<open>r\<close>, each
  Greek is returned, \<open>delta_call\<close> lies in \<open>[0, 1]\<close>, \<open>delta_put\<close> lies in \<open>[- 1, 0]\<close>,
  \<open>gamma\<close> is non-negative and \<open>vega\<close> is non-negative.
\<close>

theorem greeks_sign_conventions:
  assumes "0 < S" "0 < K" "0 < T" "0 < sigma"
  shows "(\<exists>d. delta_call S K T r sigma = Inr d \<and> 0 \<le> d \<and> d \<le> 1)
       \<and> (\<exists>d. delta_put S K T r sigma = Inr d \<and> - 1 \<le> d \<and> d \<le> 0)
       \<and> (\<exists>g. gamma S K T r sigma = Inr g \<and> 0 \<le> g)
       \<and> (\<exists>v. vega S K T r sigma = Inr v \<and> 0 \<le> v)"
proof (intro conjI)
  show "\<exists>d. delta_call S K T r sigma = Inr d \<and> 0 \<le> d \<and> d \<le> 1"
    by (simp add: delta_call_def d1_expr_valid [OF assms] and_then_def norm_cdf_nonneg norm_cdf_le_1)
  show "\<exists>d. delta_put S K T r sigma = Inr d \<and> - 1 \<le> d \<and> d \<le> 0"
    by (simp add: delta_put_def d1_expr_valid [OF assms] and_then_def norm_cdf_nonneg norm_cdf_le_1)
  have nz: "S * sigma * sqrt T \<noteq> 0" and pos: "0 < S * sigma * sqrt T"
    using assms by simp_all
  have "gamma S K T r sigma = Inr (norm_pdf (spec_d1 S K T r sigma) / (S * sigma * sqrt T))"
    using assms nz by (simp add: gamma_def d1_expr_valid [OF assms] and_then_def math_sqrt_def py_truediv_def)
  moreover have "0 \<le> norm_pdf (spec_d1 S K T r sigma) / (S * sigma * sqrt T)"
    using pos norm_pdf_pos [of "spec_d1 S K T r sigma"] by (intro divide_nonneg_pos) simp_all
  ultimately show "\<exists>g. gamma S K T r sigma = Inr g \<and> 0 \<le> g"
    by blast
  have "vega S K T r sigma = Inr (S * norm_pdf (spec_d1 S K T r sigma) * sqrt T / 100)"
    using assms by (simp add: vega_def d1_expr_valid [OF assms] and_then_def math_sqrt_def)
  moreover have "0 \<le> S * norm_pdf (spec_d1 S K T r sigma) * sqrt T / 100"
    using assms norm_pdf_pos [of "spec_d1 S K T r sigma"] by simp
  ultimately show "\<exists>v. vega S K T r sigma = Inr v \<and> 0 \<le> v"
    by blast
qed

text \<open>
  The sign conventions at the reference scenario of the spec.
\<close>

theorem greeks_sign_conventions_witness:
  "(0::real) < 100 \<and> (0::real) < 100 \<and> (0::real) < 1 \<and> (0::real) < 2 / 10
   \<and> (\<exists>d. delta_call 100 100 1 (5 / 100) (2 / 10) = Inr d \<and> 0 \<le> d \<and> d \<le> 1)
   \<and> (\<exists>d. delta_put 100 100 1 (5 / 100) (2 / 10) = Inr d \<and> - 1 \<le> d \<and> d \<le> 0)
   \<and> (\<exists>g. gamma 100 100 1 (5 / 100) (2 / 10) = Inr g \<and> 0 \<le> g)
   \<and> (\<exists>v. vega 100 100 1 (5 / 100) (2 / 10) = Inr v \<and> 0 \<le> v)"
  using greeks_sign_conventions [of 100 100 1 "2 / 10" "5 / 100"] by simp

section \<open>Results: implied volatility solver\<close>

text \<open>
  Claim C9 (the solver never raises). For every minimizer behaviour and every real input,
  domain-invalid ones included, \<open>solve_call\<close> and \<open>solve_put\<close> return a value; whenever the
  minimization raises, that value is \<open>initial_guess\<close>.
\<close>

theorem solver_never_raises:
  "(\<exists>v. solve_call ms S K T r market_price initial_guess = Inr v)
   \<and> (\<exists>v. solve_put ms S K T r market_price initial_guess = Inr v)
   \<and> (isl (ms (call_objective S K T r market_price) (0.01, 3.0))
        \<longrightarrow> solve_call ms S K T r market_price initial_guess = Inr initial_guess)
   \<and> (isl (ms (put_objective S K T r market_price) (0.01, 3.0))
        \<longrightarrow> solve_put ms S K T r market_price initial_guess = Inr initial_guess)"
  by (auto simp: solve_call_def solve_put_def split: sum.splits)

text \<open>
  With a spot price and a strike of opposite signs, or a spot price of zero, the logarithm
  raises in the objective at every volatility, and a minimizer that evaluates the objective
  passes the exception on.
\<close>

lemma call_objective_invalid:
  "K \<noteq> 0 \<Longrightarrow> S / K \<le> 0 \<Longrightarrow> isl (call_objective S K T r market_price sigma)"
  by (simp add: call_objective_def black_scholes_call_cases and_then_def)

lemma put_objective_invalid:
  "K \<noteq> 0 \<Longrightarrow> S / K \<le> 0 \<Longrightarrow> isl (put_objective S K T r market_price sigma)"
  by (simp add: put_objective_def black_scholes_put_cases and_then_def)

lemma midpoint_minimizer_raises:
  "isl (f ((lo + hi) / 2)) \<Longrightarrow> isl (midpoint_minimizer f (lo, hi))"
  by (auto simp: midpoint_minimizer_def and_then_def split: sum.splits)

lemma probing_minimizer_raises:
  "isl (f ((lo + hi) / 2)) \<Longrightarrow> isl (probing_minimizer v f (lo, hi))"
  by (auto simp: probing_minimizer_def and_then_def split: sum.splits)

lemma probing_minimizer_converges:
  "f ((lo + hi) / 2) = Inr w
   \<Longrightarrow> probing_minimizer v f (lo, hi) = Inr \<lparr> res_x = NpFloat64 v, res_success = True \<rparr>"
  by (simp add: probing_minimizer_def and_then_def)

lemma call_objective_reference:
  "call_objective 100 100 1 (5 / 100) 10 ((0.01 + 3.0) / 2)
     = Inr \<bar>spec_call 100 100 1 (5 / 100) ((0.01 + 3.0) / 2) - 10\<bar>"
  by (simp add: call_objective_def black_scholes_call_cases and_then_def)

lemma put_objective_reference:
  "put_objective 100 100 1 (5 / 100) 10 ((0.01 + 3.0) / 2)
     = Inr \<bar>spec_put 100 100 1 (5 / 100) ((0.01 + 3.0) / 2) - 10\<bar>"
  by (simp add: put_objective_def black_scholes_put_cases and_then_def)

text \<open>
  The theorem at the domain-invalid spot price \<open>S = - 1\<close>: the objective raises inside the
  minimizer, and both solvers return the default guess, the Python float \<open>0.3\<close>.
\<close>

theorem solver_never_raises_witness:
  "isl (midpoint_minimizer (call_objective (- 1) 100 1 (5 / 100) 10) (0.01, 3.0))
   \<and> isl (midpoint_minimizer (put_objective (- 1) 100 1 (5 / 100) 10) (0.01, 3.0))
   \<and> solve_call midpoint_minimizer (- 1) 100 1 (5 / 100) 10 (PyFloat (3 / 10))
       = Inr (PyFloat (3 / 10))
   \<and> solve_put midpoint_minimizer (- 1) 100 1 (5 / 100) 10 (PyFloat (3 / 10))
       = Inr (PyFloat (3 / 10))"
proof -
  have c: "isl (midpoint_minimizer (call_objective (- 1) 100 1 (5 / 100) 10) (0.01, 3.0))"
    by (rule midpoint_minimizer_raises, rule call_objective_invalid) simp_all
  have p: "isl (midpoint_minimizer (put_objective (- 1) 100 1 (5 / 100) 10) (0.01, 3.0))"
    by (rule midpoint_minimizer_raises, rule put_objective_invalid) simp_all
  show ?thesis
    using c p
      solver_never_raises [of midpoint_minimizer "- 1" 100 1 "5 / 100" 10 "PyFloat (3 / 10)"]
    by simp
qed

text \<open>
  Claim C3, as amended. When the minimization raises, the solver returns the caller's
  \<open>initial_guess\<close> unchanged (by default the Python float \<open>0.3\<close>) rather than propagating the
  fault; when the minimization returns a result, the solver returns its \<open>x\<close> whatever the
  result's success flag says. Nothing else is returned, no success flag and no tagged
  variant: a failed solve that was given the value of a converged solve as its
  \<open>initial_guess\<close> returns exactly what that converged solve returned.
\<close>

theorem solver_fallback_unflagged:
  "(isl (ms (call_objective S K T r market_price) (0.01, 3.0))
      \<longrightarrow> solve_call ms S K T r market_price initial_guess = Inr initial_guess)
   \<and> (isl (ms (put_objective S K T r market_price) (0.01, 3.0))
      \<longrightarrow> solve_put ms S K T r market_price initial_guess = Inr initial_guess)
   \<and> (ms (call_objective S' K' T' r' market_price') (0.01, 3.0) = Inr result
      \<longrightarrow> solve_call ms S' K' T' r' market_price' initial_guess' = Inr (res_x result))
   \<and> (ms (put_objective S' K' T' r' market_price') (0.01, 3.0) = Inr result'
      \<longrightarrow> solve_put ms S' K' T' r' market_price' initial_guess' = Inr (res_x result'))
   \<and> (isl (ms (call_objective S K T r market_price) (0.01, 3.0))
       \<and> ms (call_objective S' K' T' r' market_price') (0.01, 3.0) = Inr result
      \<longrightarrow> solve_call ms S K T r market_price (res_x result)
           = solve_call ms S' K' T' r' market_price' initial_guess')
   \<and> (isl (ms (put_objective S K T r market_price) (0.01, 3.0))
       \<and> ms (put_objective S' K' T' r' market_price') (0.01, 3.0) = Inr result'
      \<longrightarrow> solve_put ms S K T r market_price (res_x result')
           = solve_put ms S' K' T' r' market_price' initial_guess')"
  by (auto simp: solve_call_def solve_put_def split: sum.splits)

text \<open>
  The amended claim with one library for both solves: a failing solve at the spot price
  \<open>- 1\<close> and a converged solve at the reference scenario, for a library whose result on
  the latter is \<open>0.2\<close>.
\<close>

theorem solver_fallback_unflagged_witness:
  "isl (probing_minimizer (2 / 10) (call_objective (- 1) 100 1 (5 / 100) 10) (0.01, 3.0))
   \<and> isl (probing_minimizer (2 / 10) (put_objective (- 1) 100 1 (5 / 100) 10) (0.01, 3.0))
   \<and> probing_minimizer (2 / 10) (call_objective 100 100 1 (5 / 100) 10) (0.01, 3.0)
       = Inr \<lparr> res_x = NpFloat64 (2 / 10), res_success = True \<rparr>
   \<and> probing_minimizer (2 / 10) (put_objective 100 100 1 (5 / 100) 10) (0.01, 3.0)
       = Inr \<lparr> res_x = NpFloat64 (2 / 10), res_success = True \<rparr>
   \<and> solve_call (probing_minimizer (2 / 10)) (- 1) 100 1 (5 / 100) 10 (PyFloat (3 / 10))
       = Inr (PyFloat (3 / 10))
   \<and> solve_put (probing_minimizer (2 / 10)) (- 1) 100 1 (5 / 100) 10 (PyFloat (3 / 10))
       = Inr (PyFloat (3 / 10))
   \<and> solve_call (probing_minimizer (2 / 10)) 100 100 1 (5 / 100) 10 (PyFloat (3 / 10))
       = Inr (NpFloat64 (2 / 10))
   \<and> solve_put (probing_minimizer (2 / 10)) 100 100 1 (5 / 100) 10 (PyFloat (3 / 10))
       = Inr (NpFloat64 (2 / 10))
   \<and> solve_call (probing_minimizer (2 / 10)) (- 1) 100 1 (5 / 100) 10 (NpFloat64 (2 / 10))
       = solve_call (probing_minimizer (2 / 10)) 100 100 1 (5 / 100) 10 (PyFloat (3 / 10))
   \<and> solve_put (probing_minimizer (2 / 10)) (- 1) 100 1 (5 / 100) 10 (NpFloat64 (2 / 10))
       = solve_put (probing_minimizer (2 / 10)) 100 100 1 (5 / 100) 10 (PyFloat (3 / 10))"
proof -
  have c: "isl (probing_minimizer (2 / 10) (call_objective (- 1) 100 1 (5 / 100) 10) (0.01, 3.0))"
    by (rule probing_minimizer_raises, rule call_objective_invalid) simp_all
  have p: "isl (probing_minimizer (2 / 10) (put_objective (- 1) 100 1 (5 / 100) 10) (0.01, 3.0))"
    by (rule probing_minimizer_raises, rule put_objective_invalid) simp_all
  have c': "probing_minimizer (2 / 10) (call_objective 100 100 1 (5 / 100) 10) (0.01, 3.0)
       = Inr \<lparr> res_x = NpFloat64 (2 / 10), res_success = True \<rparr>"
    by (rule probing_minimizer_converges, rule call_objective_reference)
  have p': "probing_minimizer (2 / 10) (put_objective 100 100 1 (5 / 100) 10) (0.01, 3.0)
       = Inr \<lparr> res_x = NpFloat64 (2 / 10), res_success = True \<rparr>"
    by (rule probing_minimizer_converges, rule put_objective_reference)
  show ?thesis
    using c p c' p'
      solver_fallback_unflagged [of "probing_minimizer (2 / 10)" "- 1" 100 1 "5 / 100" 10
        "PyFloat (3 / 10)" 100 100 1 "5 / 100" 10
        "\<lparr> res_x = NpFloat64 (2 / 10), res_success = True \<rparr>" "PyFloat (3 / 10)"
        "\<lparr> res_x = NpFloat64 (2 / 10), res_success = True \<rparr>"]
    by simp
qed

text \<open>
  Claim C3 as stated fails: the caller cannot always distinguish the fallback from a
  converged result. Whatever \<^verbatim>\<open>numpy.float64\<close> value \<open>v\<close> the library converges to on the
  solve at \<open>(100, 100, 1, 0.05, 10)\<close>, the solve at the spot price \<open>- 1\<close>, which fails inside
  the minimizer, returns the same \<open>v\<close> of the same type when it is given that result as its
  \<open>initial_guess\<close>: the caller gets the same object from the converged and from the failed
  solve, and no flag with either.
\<close>

theorem solver_fallback_counterexample:
  "\<forall>v. solve_call (probing_minimizer v) 100 100 1 (5 / 100) 10 (PyFloat (3 / 10))
         = Inr (NpFloat64 v)
       \<and> isl (probing_minimizer v (call_objective (- 1) 100 1 (5 / 100) 10) (0.01, 3.0))
       \<and> solve_call (probing_minimizer v) (- 1) 100 1 (5 / 100) 10 (NpFloat64 v)
         = Inr (NpFloat64 v)"
proof (intro allI conjI)
  fix v :: real
  have c: "isl (probing_minimizer v (call_objective (- 1) 100 1 (5 / 100) 10) (0.01, 3.0))"
    by (rule probing_minimizer_raises, rule call_objective_invalid) simp_all
  have c': "probing_minimizer v (call_objective 100 100 1 (5 / 100) 10) (0.01, 3.0)
       = Inr \<lparr> res_x = NpFloat64 v, res_success = True \<rparr>"
    by (rule probing_minimizer_converges, rule call_objective_reference)
  show "solve_call (probing_minimizer v) 100 100 1 (5 / 100) 10 (PyFloat (3 / 10))
         = Inr (NpFloat64 v)"
    unfolding solve_call_def c' by simp
  show "isl (probing_minimizer v (call_objective (- 1) 100 1 (5 / 100) 10) (0.01, 3.0))"
    by (rule c)
  show "solve_call (probing_minimizer v) (- 1) 100 1 (5 / 100) 10 (NpFloat64 v)
         = Inr (NpFloat64 v)"
    using c by (auto simp: solve_call_def split: sum.splits)
qed

section \<open>Results: simulation pricer\<close>

text \<open>
  Claim C4 (reproducibility). Two simulation-pricer calls, call or put, with identical
  inputs \<open>(S, K, T, r, sigma)\<close>, identical path count \<open>N\<close> and identical seed return the same
  result, whatever state \<open>g\<close> or \<open>g'\<close> the process-wide generator was in before each call.
\<close>

theorem simulation_reproducible:
  "monte_carlo_call lib g S K T r sigma N seed = monte_carlo_call lib g' S K T r sigma N seed
   \<and> monte_carlo_put lib g S K T r sigma N seed = monte_carlo_put lib g' S K T r sigma N seed"
  by (simp add: monte_carlo_call_def monte_carlo_put_def simulate_paths_def)

lemma mc_steps_short: "0 < T \<Longrightarrow> T < 1 / 252 \<Longrightarrow> mc_steps T = 0"
  by (simp add: mc_steps_def py_int_def floor_eq_iff)

lemma gbm_loop_0: "gbm_loop lib r sigma dt N 0 st = st"
  by (simp add: gbm_loop_def)

lemma simulate_paths_short:
  assumes "0 < T" "T < 1 / 252" "0 \<le> N" "random_seed lib seed = Inr g"
  shows "simulate_paths lib g0 S T r sigma N seed = Inr ([replicate (nat N) S], g)"
  using assms
  by (simp add: simulate_paths_def mc_steps_short and_then_def np_zeros_def set_column_def gbm_loop_0)

lemma np_mean_replicate: "0 < n \<Longrightarrow> np_mean (replicate n c) = Float c"
  by (simp add: np_mean_def sum_list_replicate)

text \<open>
  Claim C10, as amended. For every maturity \<open>0 < T < 1 / 252\<close>, every path count \<open>N \<ge> 1\<close> and
  every seed that numpy accepts, the step count \<open>int(T * 252)\<close> is \<open>0\<close>; the loop does not run
  and draws nothing (the array is its first column, every entry \<open>S\<close>, and the generator is
  left in the state the seeding gave it); \<open>monte_carlo_call\<close> returns exactly
  \<open>exp (- r * T) * max (S - K) 0\<close> and \<open>monte_carlo_put\<close> returns
  \<open>exp (- r * T) * max (K - S) 0\<close>, whatever \<open>sigma\<close> is and whichever such \<open>N\<close> and seed are
  taken.
\<close>

theorem short_maturity_zero_steps:
  assumes "0 < T" "T < 1 / 252" "1 \<le> N" "random_seed lib seed = Inr g"
  shows "mc_steps T = 0
       \<and> simulate_paths lib g0 S T r sigma N seed = Inr ([replicate (nat N) S], g)
       \<and> monte_carlo_call lib g0 S K T r sigma N seed
           = Inr (Float (exp (- r * T) * max (S - K) 0), g)
       \<and> monte_carlo_put lib g0 S K T r sigma N seed
           = Inr (Float (exp (- r * T) * max (K - S) 0), g)"
proof -
  have n: "0 \<le> N" "0 < nat N"
    using assms(3) by simp_all
  have sim: "simulate_paths lib g0 S T r sigma N seed = Inr ([replicate (nat N) S], g)"
    by (rule simulate_paths_short [OF assms(1,2) n(1) assms(4)])
  show ?thesis
    using n(2)
    by (simp add: mc_steps_short [OF assms(1,2)] sim monte_carlo_call_def monte_carlo_put_def
        and_then_def np_mean_replicate np_scale_def)
qed

text \<open>
  The theorem at \<open>T = 0.001\<close> with the default path count \<open>100000\<close> and seed \<open>42\<close>.
\<close>

theorem short_maturity_zero_steps_witness:
  "(0::real) < 1 / 1000 \<and> (1::real) / 1000 < 1 / 252 \<and> (1::int) \<le> 100000
   \<and> random_seed counting_random 42 = Inr 0
   \<and> mc_steps (1 / 1000) = 0
   \<and> simulate_paths counting_random 7 100 (1 / 1000) (5 / 100) (2 / 10) 100000 42
        = Inr ([replicate (nat 100000) 100], 0)
   \<and> monte_carlo_call counting_random 7 100 90 (1 / 1000) (5 / 100) (2 / 10) 100000 42
        = Inr (Float (exp (- (5 / 100) * (1 / 1000)) * max (100 - 90) 0), 0)
   \<and> monte_carlo_put counting_random 7 100 90 (1 / 1000) (5 / 100) (2 / 10) 100000 42
        = Inr (Float (exp (- (5 / 100) * (1 / 1000)) * max (90 - 100) 0), 0)"
proof -
  have s: "random_seed counting_random 42 = Inr 0"
    by (simp add: counting_random_def)
  show ?thesis
    using s short_maturity_zero_steps [of "1 / 1000" 100000 counting_random 42 0 7 100 "5 / 100" "2 / 10" 90]
    by simp
qed

text \<open>
  Claim C10 as stated fails: the result is not independent of \<open>N\<close> and of the seed. At
  \<open>T = 0.001\<close> the call price is \<open>exp (- r * T) * 10\<close> with one path, not-a-number with no
  path (the mean of an empty array), and with the seed \<open>- 1\<close>, which numpy rejects, the call
  raises.
\<close>

theorem short_maturity_counterexample:
  "monte_carlo_call counting_random 7 100 90 (1 / 1000) (5 / 100) (2 / 10) 1 42
     = Inr (Float (exp (- (5 / 100) * (1 / 1000)) * 10), 0)
   \<and> monte_carlo_call counting_random 7 100 90 (1 / 1000) (5 / 100) (2 / 10) 0 42
     = Inr (NaN, 0)
   \<and> monte_carlo_call counting_random 7 100 90 (1 / 1000) (5 / 100) (2 / 10) 1 (- 1)
     = Inl ValueError"
proof (intro conjI)
  have s: "random_seed counting_random 42 = Inr 0"
    by (simp add: counting_random_def)
  have t: "(0::real) < 1 / 1000" "(1::real) / 1000 < 1 / 252"
    by simp_all
  show "monte_carlo_call counting_random 7 100 90 (1 / 1000) (5 / 100) (2 / 10) 1 42
     = Inr (Float (exp (- (5 / 100) * (1 / 1000)) * 10), 0)"
    by (simp add: monte_carlo_call_def simulate_paths_short [OF t _ s] and_then_def
        np_mean_def np_scale_def)
  show "monte_carlo_call counting_random 7 100 90 (1 / 1000) (5 / 100) (2 / 10) 0 42
     = Inr (NaN, 0)"
    by (simp add: monte_carlo_call_def simulate_paths_short [OF t _ s] and_then_def
        np_mean_def np_scale_def)
  show "monte_carlo_call counting_random 7 100 90 (1 / 1000) (5 / 100) (2 / 10) 1 (- 1)
     = Inl ValueError"
    by (simp add: monte_carlo_call_def simulate_paths_def counting_random_def and_then_def)
qed

lemma mc_steps_pos: "0 < T \<Longrightarrow> mc_steps T = \<lfloor>T * 252\<rfloor>"
  by (simp add: mc_steps_def py_int_def)

lemma gbm_step_length: "length (fst (gbm_step lib r sigma dt N t st)) = length (fst st)"
  by (simp add: gbm_step_def split: prod.splits)

lemma fold_gbm_step_length:
  "length (fst (fold (gbm_step lib r sigma dt N) ts st)) = length (fst st)"
  by (induction ts arbitrary: st) (simp_all add: gbm_step_length)

lemma gbm_loop_length: "length (fst (gbm_loop lib r sigma dt N steps st)) = length (fst st)"
  by (simp add: gbm_loop_def fold_gbm_step_length del: upt_Suc)

lemma simulate_paths_columns:
  assumes "0 \<le> N" "0 \<le> mc_steps T" "random_seed lib seed = Inr g"
  shows "\<exists>paths g'. simulate_paths lib g0 S T r sigma N seed = Inr (paths, g')
           \<and> length paths = nat (mc_steps T) + 1"
proof -
  let ?p = "(replicate (nat (mc_steps T + 1)) (replicate (nat N) 0))[0 := replicate (nat N) S]"
  let ?res = "gbm_loop lib r sigma (mc_dt T) (nat N) (nat (mc_steps T)) (?p, g)"
  have "simulate_paths lib g0 S T r sigma N seed = Inr ?res"
    using assms
    by (simp add: simulate_paths_def and_then_def np_zeros_def set_column_def Let_def)
  moreover have "length (fst ?res) = nat (mc_steps T) + 1"
    using assms(2) by (simp add: gbm_loop_length nat_add_distrib)
  ultimately show ?thesis
    by (cases ?res) auto
qed

text \<open>
  Claim C2, as amended. For every \<open>T > 0\<close> the simulation pricer uses
  \<open>steps = int(T * 252)\<close>, which is \<open>T * 252\<close> rounded down: \<open>steps \<le> T * 252 < steps + 1\<close>
  (truncation, not rounding to the nearest integer), and the simulated array has
  \<open>steps + 1\<close> columns.
\<close>

theorem steps_truncated:
  assumes "0 < T"
  shows "mc_steps T = \<lfloor>T * 252\<rfloor>
       \<and> real_of_int (mc_steps T) \<le> T * 252
       \<and> T * 252 < real_of_int (mc_steps T) + 1
       \<and> (0 \<le> N \<and> random_seed lib seed = Inr g \<longrightarrow>
            (\<exists>paths g'. simulate_paths lib g0 S T r sigma N seed = Inr (paths, g')
               \<and> length paths = nat \<lfloor>T * 252\<rfloor> + 1))"
proof -
  have s: "mc_steps T = \<lfloor>T * 252\<rfloor>"
    by (rule mc_steps_pos [OF assms])
  have nn: "0 \<le> mc_steps T"
    using assms by (simp add: s)
  show ?thesis
    using simulate_paths_columns [OF _ nn, of N lib seed g g0 S r sigma]
    by (auto simp: s)
qed

text \<open>
  The amended claim at \<open>T = 1 / 144\<close>, where \<open>T * 252 = 1.75\<close>.
\<close>

theorem steps_truncated_witness:
  "(0::real) < 1 / 144 \<and> (0::int) \<le> 2 \<and> random_seed counting_random 42 = Inr 0
   \<and> mc_steps (1 / 144) = \<lfloor>(1 / 144) * 252 :: real\<rfloor>
   \<and> real_of_int (mc_steps (1 / 144)) \<le> (1 / 144) * 252
   \<and> (1 / 144) * 252 < real_of_int (mc_steps (1 / 144)) + 1
   \<and> (\<exists>paths g'. simulate_paths counting_random 7 100 (1 / 144) (5 / 100) (2 / 10) 2 42 = Inr (paths, g')
               \<and> length paths = nat \<lfloor>(1 / 144) * 252 :: real\<rfloor> + 1)"
proof -
  have s: "random_seed counting_random 42 = Inr 0"
    by (simp add: counting_random_def)
  show ?thesis
    using s steps_truncated [of "1 / 144" 2 counting_random 42 0 7 100 "5 / 100" "2 / 10"]
    by simp
qed

text \<open>
  Claim C2 as stated fails at \<open>T = 1 / 144\<close>: \<open>T * 252 = 1.75\<close> rounds to \<open>2\<close> but the pricer
  takes \<open>1\<close> step; its step size \<open>T / 252\<close> is not \<open>T / steps\<close>, and the steps do not add
  up to \<open>T\<close>.
\<close>

theorem steps_rounded_counterexample:
  "mc_steps (1 / 144) = 1
   \<and> round ((1 / 144) * 252 :: real) = 2
   \<and> mc_dt (1 / 144) \<noteq> (1 / 144) / real_of_int (mc_steps (1 / 144))
   \<and> real_of_int (mc_steps (1 / 144)) * mc_dt (1 / 144) \<noteq> 1 / 144"
  by (simp add: mc_steps_def py_int_def mc_dt_def round_def)

section \<open>Results: invalid parameters\<close>



















end
